theory Spec2Isabelle
  imports Complex_Main "HOL-Library.Sublist"
begin

section \<open>Thrown values and the outcome of an awaited call\<close>

text \<open>
  A JavaScript \<^verbatim>\<open>throw\<close> carries any value. The handlers only ask whether the value
  is an \<^verbatim>\<open>Error\<close> instance, and read its \<^verbatim>\<open>message\<close> when it is.
\<close>

datatype thrown = Error string | NonError

datatype 'a outcome = Returns 'a | Throws thrown

text \<open>\<^verbatim>\<open>error instanceof Error ? error.message : fallback\<close>\<close>

fun errorMessage :: "thrown \<Rightarrow> string \<Rightarrow> string" where
  "errorMessage (Error m) fallback = m"
| "errorMessage NonError fallback = fallback"

section \<open>The health route: \<^verbatim>\<open>src/app/api/health/route.ts\<close>\<close>

subsection \<open>The health document\<close>

record check =
  status :: string
  message :: string

record timed_check = check +
  responseTime :: int

record 'q queue_check = check +
  stats :: "'q option"

record environment_check = check +
  missing :: "string list"

record 'q checks =
  database :: timed_check
  redis :: timed_check
  queue :: "'q queue_check"
  environment :: environment_check

record summary =
  healthy :: nat
  total :: nat

record 'q health_document =
  timestamp :: string
  overall_status :: string
  checks :: "'q checks"
  summary :: summary

record 'q health_response =
  statusCode :: nat
  document :: "'q health_document"

subsection \<open>What the handler reads from outside\<close>

text \<open>
  The three awaited probes are calls into other modules; each returns or throws.
  \<open>db_elapsed\<close> and \<open>kv_elapsed\<close> are the differences \<^verbatim>\<open>Date.now() - start\<close>,
  \<open>process_env\<close> is \<^verbatim>\<open>process.env\<close> and \<open>now_iso\<close> is
  \<^verbatim>\<open>new Date().toISOString()\<close>.
\<close>

record 'q health_env =
  sql_select1 :: "unit outcome"
  db_elapsed :: int
  kv_ping :: "unit outcome"
  kv_elapsed :: int
  getQueueStats :: "'q outcome"
  process_env :: "string \<Rightarrow> string option"
  now_iso :: string

text \<open>The probes the handler has invoked so far, in order.\<close>

datatype probe = SqlSelect1 | KvPing | GetQueueStats

subsection \<open>The four checks of \<^verbatim>\<open>GET\<close>\<close>

definition databaseCheck :: "'q health_env \<Rightarrow> probe list \<Rightarrow> timed_check \<times> probe list" where
  "databaseCheck e trace =
     (case sql_select1 e of
        Returns _ \<Rightarrow>
          (\<lparr>status = ''healthy'', message = ''Database connection successful'',
            responseTime = db_elapsed e\<rparr>, trace @ [SqlSelect1])
      | Throws error \<Rightarrow>
          (\<lparr>status = ''unhealthy'',
            message = ''Database error: '' @ errorMessage error ''Unknown database error'',
            responseTime = 0\<rparr>, trace @ [SqlSelect1]))"

definition redisCheck :: "'q health_env \<Rightarrow> probe list \<Rightarrow> timed_check \<times> probe list" where
  "redisCheck e trace =
     (case kv_ping e of
        Returns _ \<Rightarrow>
          (\<lparr>status = ''healthy'', message = ''Redis connection successful'',
            responseTime = kv_elapsed e\<rparr>, trace @ [KvPing])
      | Throws error \<Rightarrow>
          (\<lparr>status = ''unhealthy'',
            message = ''Redis error: '' @ errorMessage error ''Unknown Redis error'',
            responseTime = 0\<rparr>, trace @ [KvPing]))"

definition queueCheck :: "'q health_env \<Rightarrow> probe list \<Rightarrow> 'q queue_check \<times> probe list" where
  "queueCheck e trace =
     (case getQueueStats e of
        Returns s \<Rightarrow>
          (\<lparr>status = ''healthy'', message = ''Queue system operational'',
            stats = Some s\<rparr>, trace @ [GetQueueStats])
      | Throws error \<Rightarrow>
          (\<lparr>status = ''unhealthy'',
            message = ''Queue error: '' @ errorMessage error ''Unknown queue error'',
            stats = None\<rparr>, trace @ [GetQueueStats]))"

definition requiredEnvVars :: "string list" where
  "requiredEnvVars =
     [''POSTGRES_URL'', ''KV_URL'', ''OPENAI_API_KEY'', ''SCRAPEOWL_API_KEY'',
      ''BLOB_READ_WRITE_TOKEN'']"

text \<open>\<^verbatim>\<open>!process.env[varName]\<close>: the variable is unset or the empty string.\<close>

definition env_falsy :: "string option \<Rightarrow> bool" where
  "env_falsy v = (case v of None \<Rightarrow> True | Some s \<Rightarrow> s = [])"

text \<open>\<^verbatim>\<open>xs.join(', ')\<close>\<close>

fun join_comma :: "string list \<Rightarrow> string" where
  "join_comma [] = []"
| "join_comma [x] = x"
| "join_comma (x # y # ys) = x @ '', '' @ join_comma (y # ys)"

definition environmentCheck :: "'q health_env \<Rightarrow> environment_check" where
  "environmentCheck e =
     (let missingEnvVars = filter (\<lambda>varName. env_falsy (process_env e varName)) requiredEnvVars
      in if length missingEnvVars = 0
         then \<lparr>status = ''healthy'', message = ''All required environment variables present'',
               missing = []\<rparr>
         else \<lparr>status = ''unhealthy'',
               message = ''Missing environment variables: '' @ join_comma missingEnvVars,
               missing = missingEnvVars\<rparr>)"

subsection \<open>The reduction to one status and one response code\<close>

text \<open>\<^verbatim>\<open>Object.values(checks.checks)\<close>, read at the \<^verbatim>\<open>status\<close> property.\<close>

definition check_statuses :: "'q checks \<Rightarrow> string list" where
  "check_statuses c =
     [status (database c), status (redis c), status (queue c), status (environment c)]"

definition overallStatus :: "nat \<Rightarrow> nat \<Rightarrow> string" where
  "overallStatus healthyChecks tot =
     (if healthyChecks = tot then ''healthy''
      else if healthyChecks > 0 then ''degraded''
      else ''unhealthy'')"

definition statusCodeOf :: "string \<Rightarrow> nat" where
  "statusCodeOf s = (if s = ''healthy'' then 200 else if s = ''degraded'' then 207 else 503)"

definition health_GET :: "'q health_env \<Rightarrow> 'q health_response \<times> probe list" where
  "health_GET e =
     (let (db, trace1) = databaseCheck e [];
          (kv, trace2) = redisCheck e trace1;
          (qu, trace3) = queueCheck e trace2;
          ev = environmentCheck e;
          cs = \<lparr>database = db, redis = kv, queue = qu, environment = ev\<rparr>;
          healthyChecks = length (filter (\<lambda>s. s = ''healthy'') (check_statuses cs));
          sm = \<lparr>healthy = healthyChecks, total = 4\<rparr>;
          st = overallStatus healthyChecks (total sm)
      in (\<lparr>statusCode = statusCodeOf st,
           document = \<lparr>timestamp = now_iso e, overall_status = st, checks = cs,
                        summary = sm\<rparr>\<rparr>, trace3))"

subsection \<open>The maintenance trigger \<^verbatim>\<open>POST\<close>\<close>

record maintenance_env =
  processRetryableJobs :: "unit outcome"
  triggerProcessing :: "unit outcome"
  maintenance_now_iso :: string

datatype queue_call = ProcessRetryableJobs | TriggerProcessing

text \<open>
  The two bodies: \<^verbatim>\<open>{success, message, timestamp}\<close> and
  \<^verbatim>\<open>{error, details, timestamp}\<close>.
\<close>

datatype maintenance_body =
  MaintenanceDone bool string string
| MaintenanceFailed string string string

record maintenance_response =
  maintenance_code :: nat
  maintenance_body :: maintenance_body

definition maintenanceFailed :: "maintenance_env \<Rightarrow> thrown \<Rightarrow> maintenance_response" where
  "maintenanceFailed e error =
     \<lparr>maintenance_code = 500,
      maintenance_body =
        MaintenanceFailed ''System maintenance failed''
          (errorMessage error ''Unknown maintenance error'') (maintenance_now_iso e)\<rparr>"

definition health_POST :: "maintenance_env \<Rightarrow> maintenance_response \<times> queue_call list" where
  "health_POST e =
     (case processRetryableJobs e of
        Throws error \<Rightarrow> (maintenanceFailed e error, [ProcessRetryableJobs])
      | Returns _ \<Rightarrow>
          (case triggerProcessing e of
             Throws error \<Rightarrow> (maintenanceFailed e error, [ProcessRetryableJobs, TriggerProcessing])
           | Returns _ \<Rightarrow>
               (\<lparr>maintenance_code = 200,
                 maintenance_body =
                   MaintenanceDone True ''System maintenance completed'' (maintenance_now_iso e)\<rparr>,
                [ProcessRetryableJobs, TriggerProcessing])))"

section \<open>The website crawler worker: \<^verbatim>\<open>src/app/api/workers/website-crawler/route.ts\<close>\<close>

subsection \<open>Strings\<close>

text \<open>
  A JavaScript string is a sequence of UTF-16 code units and \<^verbatim>\<open>length\<close> counts them.
  A \<^typ>\<open>char\<close> stands for the code unit of the same number, so the model covers the
  strings whose code units lie below 256. On these, white space (\<^verbatim>\<open>\s\<close> and
  \<^verbatim>\<open>trim\<close>) is TAB, LF, VT, FF, CR, SPACE and NBSP; \<^verbatim>\<open>toLowerCase\<close> moves
  \<^verbatim>\<open>A-Z\<close> and the capital letters of U+00C0..U+00DE (but U+00D7) up by 32; and a
  letter of a pattern under the \<^verbatim>\<open>i\<close> flag matches its two ASCII cases only.
\<close>

definition is_whitespace :: "char \<Rightarrow> bool" where
  "is_whitespace c = (of_char c \<in> {9, 10, 11, 12, 13, 32, 160 :: nat})"

definition trim :: "string \<Rightarrow> string" where
  "trim s = rev (dropWhile is_whitespace (rev (dropWhile is_whitespace s)))"

definition lower_char :: "char \<Rightarrow> char" where
  "lower_char c =
     (let n = of_char c :: nat
      in if (65 \<le> n \<and> n \<le> 90) \<or> (192 \<le> n \<and> n \<le> 214) \<or> (216 \<le> n \<and> n \<le> 222)
         then char_of (n + 32) else c)"

definition toLowerCase :: "string \<Rightarrow> string" where
  "toLowerCase s = map lower_char s"

definition ascii_lower :: "char \<Rightarrow> char" where
  "ascii_lower c =
     (let n = of_char c :: nat in if 65 \<le> n \<and> n \<le> 90 then char_of (n + 32) else c)"

text \<open>\<^verbatim>\<open>s.includes(w)\<close>\<close>

fun includes_str :: "string \<Rightarrow> string \<Rightarrow> bool" where
  "includes_str [] w = (w = [])"
| "includes_str (c # cs) w = (prefix w (c # cs) \<or> includes_str cs w)"

text \<open>\<^verbatim>\<open>s.split(',')\<close>, the piece being read carried along.\<close>

fun split_at :: "char \<Rightarrow> string \<Rightarrow> string \<Rightarrow> string list" where
  "split_at sep cur [] = [cur]"
| "split_at sep cur (c # cs) =
     (if c = sep then cur # split_at sep [] cs else split_at sep (cur @ [c]) cs)"

text \<open>
  \<^verbatim>\<open>s.split(/[.!?]+/)\<close>: a maximal run of separators ends one piece and starts the
  next; \<open>insep\<close> says that the run is still going on.
\<close>

definition is_sentence_end :: "char \<Rightarrow> bool" where
  "is_sentence_end c = (c \<in> set ''.!?'')"

fun split_runs :: "string \<Rightarrow> bool \<Rightarrow> string \<Rightarrow> string list" where
  "split_runs cur insep [] = [cur]"
| "split_runs cur insep (c # cs) =
     (if is_sentence_end c
      then (if insep then split_runs cur True cs else cur # split_runs [] True cs)
      else split_runs (cur @ [c]) False cs)"

text \<open>\<^verbatim>\<open>[...new Set(xs)]\<close>: the first occurrence of every element, in order.\<close>

fun uniq_from :: "'a list \<Rightarrow> 'a list \<Rightarrow> 'a list" where
  "uniq_from seen [] = []"
| "uniq_from seen (x # xs) =
     (if x \<in> set seen then uniq_from seen xs else x # uniq_from (x # seen) xs)"

definition set_values :: "'a list \<Rightarrow> 'a list" where
  "set_values xs = uniq_from [] xs"

subsection \<open>The regular expressions of the source, as matchers\<close>

text \<open>
  A matcher gives the length of the match that starts at the head of its argument, if
  there is one. None of the patterns below matches the empty string.
  \<open>replace_from\<close> is \<^verbatim>\<open>replace\<close> with the \<^verbatim>\<open>g\<close> flag: it goes left to right,
  and after a match it resumes behind it (\<open>skip\<close> counts the matched characters still
  to be passed over).
\<close>

fun replace_from :: "(string \<Rightarrow> nat option) \<Rightarrow> string \<Rightarrow> nat \<Rightarrow> string \<Rightarrow> string" where
  "replace_from m rep skip [] = []"
| "replace_from m rep skip (c # cs) =
     (if skip > 0 then replace_from m rep (skip - 1) cs
      else (case m (c # cs) of
              Some (Suc n) \<Rightarrow> rep @ replace_from m rep n cs
            | _ \<Rightarrow> c # replace_from m rep 0 cs))"

definition replace_all :: "(string \<Rightarrow> nat option) \<Rightarrow> string \<Rightarrow> string \<Rightarrow> string" where
  "replace_all m rep s = replace_from m rep 0 s"

text \<open>A pattern of literal characters under the \<^verbatim>\<open>i\<close> flag, at the head of \<open>s\<close>.\<close>

definition ci_starts :: "string \<Rightarrow> string \<Rightarrow> bool" where
  "ci_starts pat s =
     (length pat \<le> length s \<and> map ascii_lower (take (length pat) s) = map ascii_lower pat)"

fun index_of :: "char \<Rightarrow> string \<Rightarrow> nat option" where
  "index_of c [] = None"
| "index_of c (x # xs) = (if x = c then Some 0 else map_option Suc (index_of c xs))"

fun find_ci :: "string \<Rightarrow> string \<Rightarrow> nat option" where
  "find_ci pat [] = None"
| "find_ci pat (c # cs) =
     (if ci_starts pat (c # cs) then Some 0 else map_option Suc (find_ci pat cs))"

text \<open>
  \<^verbatim>\<open>/<script[^>]*>[\s\S]*?<\/script>/i\<close> and the same for \<^verbatim>\<open>style\<close>: the opening
  name, everything up to the first closing angle bracket, then everything up to the first
  closing tag.
\<close>

definition match_element :: "string \<Rightarrow> string \<Rightarrow> nat option" where
  "match_element tag s =
     (let opening = ''<'' @ tag; closing = ''</'' @ tag @ ''>''
      in if ci_starts opening s
         then (case index_of CHR ''>'' (drop (length opening) s) of
                 None \<Rightarrow> None
               | Some j \<Rightarrow>
                   (case find_ci closing (drop (length opening + j + 1) s) of
                      None \<Rightarrow> None
                    | Some k \<Rightarrow> Some (length opening + j + 1 + k + length closing)))
         else None)"

text \<open>\<^verbatim>\<open>/<[^>]*>/\<close>\<close>

fun match_tag :: "string \<Rightarrow> nat option" where
  "match_tag [] = None"
| "match_tag (c # cs) =
     (if c = CHR ''<'' then map_option (\<lambda>j. j + 2) (index_of CHR ''>'' cs) else None)"

text \<open>\<^verbatim>\<open>/\s+/\<close>\<close>

definition match_spaces :: "string \<Rightarrow> nat option" where
  "match_spaces s =
     (let n = length (takeWhile is_whitespace s) in if n > 0 then Some n else None)"

text \<open>A pattern of literal characters, such as \<^verbatim>\<open>/&amp;/\<close>.\<close>

definition match_literal :: "string \<Rightarrow> string \<Rightarrow> nat option" where
  "match_literal pat s = (if prefix pat s then Some (length pat) else None)"

subsection \<open>\<^verbatim>\<open>extractTextFromHTML\<close> and \<^verbatim>\<open>extractTitle\<close>\<close>

definition extractTextFromHTML :: "string \<Rightarrow> string" where
  "extractTextFromHTML html =
     (let text = replace_all (match_element ''script'') [] html;
          text = replace_all (match_element ''style'') [] text;
          text = replace_all match_tag '' '' text;
          text = trim (replace_all match_spaces '' '' text);
          text = replace_all (match_literal ''&nbsp;'') '' '' text;
          text = replace_all (match_literal ''&amp;'') ''&'' text;
          text = replace_all (match_literal ''&lt;'') ''<'' text;
          text = replace_all (match_literal ''&gt;'') ''>'' text;
          text = replace_all (match_literal ''&quot;'') [CHR 0x22] text;
          text = replace_all (match_literal ''&#39;'') [CHR 0x27] text
      in text)"

text \<open>
  \<^verbatim>\<open>/<title[^>]*>([^<]+)<\/title>/i\<close> at the head of \<open>s\<close>; the result is the group.
\<close>

definition match_title :: "string \<Rightarrow> string option" where
  "match_title s =
     (if ci_starts ''<title'' s
      then (case index_of CHR ''>'' (drop 6 s) of
              None \<Rightarrow> None
            | Some j \<Rightarrow>
                (let rest = drop (6 + j + 1) s;
                     grp = takeWhile (\<lambda>c. c \<noteq> CHR ''<'') rest
                 in if grp \<noteq> [] \<and> ci_starts ''</title>'' (drop (length grp) rest)
                    then Some grp else None))
      else None)"

text \<open>\<^verbatim>\<open>html.match(...)\<close> without the \<^verbatim>\<open>g\<close> flag: the leftmost match.\<close>

fun first_title :: "string \<Rightarrow> string option" where
  "first_title [] = None"
| "first_title (c # cs) =
     (case match_title (c # cs) of Some g \<Rightarrow> Some g | None \<Rightarrow> first_title cs)"

definition extractTitle :: "string \<Rightarrow> string" where
  "extractTitle html =
     (case first_title html of Some g \<Rightarrow> trim g | None \<Rightarrow> ''Unknown Title'')"

subsection \<open>The keyword heuristics\<close>

text \<open>
  \<^verbatim>\<open>extractSentencesWithWords\<close>: the pieces between runs of \<^verbatim>\<open>.!?\<close> that are longer
  than 20 once trimmed; of these, the ones that contain a target word (both in lower
  case) and have a trimmed length between 31 and 199, trimmed, without repetitions.
\<close>

definition hasTargetWord :: "string list \<Rightarrow> string \<Rightarrow> bool" where
  "hasTargetWord targetWords sentence =
     list_ex (\<lambda>word. includes_str (toLowerCase sentence) (toLowerCase word)) targetWords"

definition extractSentencesWithWords :: "string \<Rightarrow> string list \<Rightarrow> string list" where
  "extractSentencesWithWords content targetWords =
     (let sentences = filter (\<lambda>s. length (trim s) > 20) (split_runs [] False content);
          matchingSentences =
            map trim
              (filter (\<lambda>sentence. hasTargetWord targetWords sentence \<and>
                         length (trim sentence) > 30 \<and> length (trim sentence) < 200)
                 sentences)
      in set_values matchingSentences)"

text \<open>
  \<^verbatim>\<open>extractImportantWords\<close> matches
  \<^verbatim>\<open>/\b(grounding|earthing|...|healing)\b/gi\<close>. \<^verbatim>\<open>\b\<close> holds between two
  positions when exactly one of them is a word character (\<^verbatim>\<open>[A-Za-z0-9_]\<close>); the
  start and the end of the string count as no word character. The alternatives are tried
  in the order of the pattern.
\<close>

definition is_word_char :: "char \<Rightarrow> bool" where
  "is_word_char c =
     (let n = of_char c :: nat
      in (48 \<le> n \<and> n \<le> 57) \<or> (65 \<le> n \<and> n \<le> 90) \<or> n = 95 \<or> (97 \<le> n \<and> n \<le> 122))"

definition word_boundary :: "char option \<Rightarrow> char option \<Rightarrow> bool" where
  "word_boundary a b =
     ((case a of None \<Rightarrow> False | Some c \<Rightarrow> is_word_char c) \<noteq>
      (case b of None \<Rightarrow> False | Some c \<Rightarrow> is_word_char c))"

definition productTermPattern :: "string list" where
  "productTermPattern =
     [''grounding'', ''earthing'', ''conductive'', ''organic'', ''cotton'', ''silver'',
      ''copper'', ''sheet'', ''mat'', ''pad'', ''wellness'', ''sleep'', ''health'', ''natural'',
      ''therapy'', ''healing'']"

fun char_at :: "string \<Rightarrow> nat \<Rightarrow> char option" where
  "char_at [] n = None"
| "char_at (c # cs) 0 = Some c"
| "char_at (c # cs) (Suc n) = char_at cs n"

text \<open>
  The match at the head of \<open>s\<close>, \<open>prev\<close> being the character before it: the first
  alternative that is there and ends at a word boundary.
\<close>

definition match_term :: "char option \<Rightarrow> string \<Rightarrow> string option" where
  "match_term prev s =
     (if word_boundary prev (char_at s 0)
      then find (\<lambda>t. ci_starts t s \<and>
                      word_boundary (char_at s (length t - 1)) (char_at s (length t)))
             productTermPattern
      else None)"

fun scan_terms :: "char option \<Rightarrow> nat \<Rightarrow> string \<Rightarrow> string list" where
  "scan_terms prev skip [] = []"
| "scan_terms prev skip (c # cs) =
     (if skip > 0 then scan_terms (Some c) (skip - 1) cs
      else (case match_term prev (c # cs) of
              Some t \<Rightarrow> take (length t) (c # cs) # scan_terms (Some c) (length t - 1) cs
            | None \<Rightarrow> scan_terms (Some c) 0 cs))"

text \<open>The second parameter is not used by the source either.\<close>

definition extractImportantWords :: "string \<Rightarrow> string list \<Rightarrow> string list" where
  "extractImportantWords content targetKeywords =
     (let productTerms = scan_terms None 0 content;
          uniqueTerms = set_values (map toLowerCase productTerms)
      in take 10 uniqueTerms)"

record analysis =
  a_valuePropositions :: "string list"
  a_features :: "string list"
  a_benefits :: "string list"
  a_keywords :: "string list"

definition valueWords :: "string list" where
  "valueWords =
     [''best'', ''premium'', ''quality'', ''effective'', ''proven'', ''guaranteed'',
      ''certified'', ''natural'', ''safe'', ''scientifically'', ''clinically'']"

definition featureWords :: "string list" where
  "featureWords =
     [''made'', ''includes'', ''features'', ''comes with'', ''designed'', ''built'',
      ''contains'', ''material'', ''size'', ''dimensions'']"

definition benefitWords :: "string list" where
  "benefitWords =
     [''helps'', ''improves'', ''reduces'', ''increases'', ''better'', ''relief'', ''sleep'',
      ''health'', ''wellness'', ''benefits'', ''feel'']"

definition analyzeWebsiteContent :: "string \<Rightarrow> string list \<Rightarrow> analysis" where
  "analyzeWebsiteContent content targetKeywords =
     (let contentLower = toLowerCase content;
          valuePropositions = take 8 (extractSentencesWithWords content valueWords);
          features = take 10 (extractSentencesWithWords content featureWords);
          benefits = take 10 (extractSentencesWithWords content benefitWords);
          foundKeywords =
            filter (\<lambda>keyword. includes_str contentLower (toLowerCase keyword)) targetKeywords;
          additionalKeywords = extractImportantWords content targetKeywords
      in \<lparr>a_valuePropositions = valuePropositions, a_features = features,
          a_benefits = benefits, a_keywords = take 15 (foundKeywords @ additionalKeywords)\<rparr>)"

subsection \<open>JSON values, as \<^verbatim>\<open>request.json()\<close> returns them\<close>

text \<open>
  \<open>JNum\<close> carries the value of the parsed number; the handler only asks whether it is
  zero. \<open>JObj\<close> lists the properties of the parsed object, every key once.
\<close>

datatype json =
  JNull
| JBool bool
| JNum real
| JStr string
| JArr "json list"
| JObj "(string \<times> json) list"

text \<open>
  Reading a property while destructuring: \<open>None\<close> is \<^verbatim>\<open>undefined\<close>. (Destructuring
  \<^verbatim>\<open>null\<close> throws; the handler model takes that branch before it reads a property.)
\<close>

fun property :: "json \<Rightarrow> string \<Rightarrow> json option" where
  "property (JObj fs) k = map_of fs k"
| "property _ k = None"

text \<open>JavaScript's truthiness, as \<^verbatim>\<open>!x\<close> and \<^verbatim>\<open>x || y\<close> read it.\<close>

fun truthy :: "json \<Rightarrow> bool" where
  "truthy JNull = False"
| "truthy (JBool b) = b"
| "truthy (JNum x) = (x \<noteq> 0)"
| "truthy (JStr s) = (s \<noteq> [])"
| "truthy (JArr xs) = True"
| "truthy (JObj fs) = True"

subsection \<open>The stored data\<close>

record metadata =
  md_timestamp :: string
  md_contentLength :: nat
  md_extractionMethod :: string

record websiteData =
  url :: json
  title :: string
  content :: string
  valuePropositions :: "string list"
  features :: "string list"
  benefits :: "string list"
  keywords_list :: "string list"
  metadata :: metadata

text \<open>
  What the worker hands to \<^verbatim>\<open>saveJobData\<close>: the collected data, or
  \<^verbatim>\<open>{url, error, metadata: {timestamp}}\<close>.
\<close>

datatype job_data =
  Collected websiteData
| CrawlError json string string

subsection \<open>\<^verbatim>\<open>crawlWebsiteDirectly\<close>\<close>

record fetch_response =
  response_ok :: bool
  response_status :: nat
  response_text :: "string outcome"

text \<open>
  \<^verbatim>\<open>targetKeywords.forEach(keyword => ... keyword.toLowerCase() ...)\<close> at run time:
  the value must be an array and its elements strings, or a \<^verbatim>\<open>TypeError\<close> is thrown
  (\<open>None\<close>).
\<close>

fun string_of :: "json \<Rightarrow> string option" where
  "string_of (JStr s) = Some s"
| "string_of _ = None"

fun strings_of :: "json list \<Rightarrow> string list option" where
  "strings_of [] = Some []"
| "strings_of (x # xs) =
     (case string_of x of
        None \<Rightarrow> None
      | Some s \<Rightarrow> (case strings_of xs of None \<Rightarrow> None | Some ss \<Rightarrow> Some (s # ss)))"

fun string_array :: "json \<Rightarrow> string list option" where
  "string_array (JArr xs) = strings_of xs"
| "string_array _ = None"

text \<open>
  A template literal converts the values it embeds to strings. For a value parsed from
  JSON the conversion throws a \<^verbatim>\<open>TypeError\<close> exactly when it meets an object with a
  property \<^verbatim>\<open>toString\<close> of its own: no JSON value is callable, and \<^verbatim>\<open>valueOf\<close>,
  inherited or own, gives no primitive. An array converts its elements (\<^verbatim>\<open>null\<close> to
  the empty string) and joins them; the other values always convert.
\<close>

fun conversion_throws :: "json \<Rightarrow> bool" where
  "conversion_throws (JObj fs) = (map_of fs ''toString'' \<noteq> None)"
| "conversion_throws (JArr xs) = list_ex conversion_throws xs"
| "conversion_throws v = False"

text \<open>
  \<open>fetch\<close> is the network, \<open>now\<close> is \<^verbatim>\<open>new Date().toISOString()\<close>. The first
  statement of the \<^verbatim>\<open>try\<close> block logs a template literal over \<^verbatim>\<open>websiteUrl\<close>. Every
  exception inside the block ends in the \<^verbatim>\<open>catch\<close>, which returns \<^verbatim>\<open>null\<close>
  (\<open>None\<close>).
\<close>

definition crawlWebsiteDirectly ::
  "(json \<Rightarrow> fetch_response outcome) \<Rightarrow> string \<Rightarrow> json \<Rightarrow> json \<Rightarrow> websiteData option" where
  "crawlWebsiteDirectly fetch now websiteUrl targetKeywords =
     (if conversion_throws websiteUrl then None
      else case fetch websiteUrl of
        Throws error \<Rightarrow> None
      | Returns response \<Rightarrow>
          if \<not> response_ok response then None
          else (case response_text response of
                  Throws error \<Rightarrow> None
                | Returns html \<Rightarrow>
                    (let textContent = extractTextFromHTML html;
                         pageTitle = extractTitle html
                     in case string_array targetKeywords of
                          None \<Rightarrow> None
                        | Some kws \<Rightarrow>
                            (let analysis = analyzeWebsiteContent textContent kws
                             in Some \<lparr>url = websiteUrl, title = pageTitle,
                                      content = take 5000 textContent,
                                      valuePropositions = a_valuePropositions analysis,
                                      features = a_features analysis,
                                      benefits = a_benefits analysis,
                                      keywords_list = a_keywords analysis,
                                      metadata =
                                        \<lparr>md_timestamp = now,
                                         md_contentLength = length textContent,
                                         md_extractionMethod = ''direct_fetch''\<rparr>\<rparr>))))"

subsection \<open>The job store\<close>

datatype job_status = Pending | Processing | Completed | Failed

datatype db_call =
  UpdateJobStatus json job_status
| SaveJobData json string job_data

text \<open>
  The state the handler works on: the two tables of the store and the calls made to
  \<^verbatim>\<open>@/lib/db\<close> so far.
\<close>

record world =
  jobs :: "json \<rightharpoonup> job_status"
  jobData :: "json \<times> string \<rightharpoonup> job_data"
  db_calls :: "db_call list"

text \<open>
  Modelled from the spec: \<^verbatim>\<open>updateJobStatus\<close> of \<^verbatim>\<open>@/lib/db\<close>, which is not among
  the sources. The spec gives the store a Job table keyed by job id, whose \<open>status\<close> is
  one of pending, processing, completed, failed. It does not say what the store does with
  the status a job already has when a new one is asked for (it may write it over, or
  refuse a step backward), so that is the parameter \<open>rule\<close>: from the status held
  (\<open>None\<close> for a job without a record) and the status asked for to the status kept.
  \<open>fault\<close> is the error when the store is unreachable and the call throws; nothing is
  written then.
\<close>

definition updateJobStatus ::
  "thrown option \<Rightarrow> (job_status option \<Rightarrow> job_status \<Rightarrow> job_status option) \<Rightarrow> json
    \<Rightarrow> job_status \<Rightarrow> world \<Rightarrow> unit outcome \<times> world" where
  "updateJobStatus fault rule jobId st w =
     (let w' = w\<lparr>db_calls := db_calls w @ [UpdateJobStatus jobId st]\<rparr>
      in case fault of
           Some error \<Rightarrow> (Throws error, w')
         | None \<Rightarrow> (Returns (), w'\<lparr>jobs := (jobs w)(jobId := rule (jobs w jobId) st)\<rparr>))"

text \<open>
  Modelled from the spec: \<^verbatim>\<open>saveJobData\<close> of \<^verbatim>\<open>@/lib/db\<close>, which is not among the
  sources. The spec keys a JobDataRecord by (job id, source name) and says that a retried
  task overwrites the prior record for the same key: the last successful write wins and
  there is no merge. \<open>fault\<close> is as above.
\<close>

definition saveJobData ::
  "thrown option \<Rightarrow> json \<Rightarrow> string \<Rightarrow> job_data \<Rightarrow> world \<Rightarrow> unit outcome \<times> world" where
  "saveJobData fault jobId dataType d w =
     (let w' = w\<lparr>db_calls := db_calls w @ [SaveJobData jobId dataType d]\<rparr>
      in case fault of
           Some error \<Rightarrow> (Throws error, w')
         | None \<Rightarrow> (Returns (), w'\<lparr>jobData := (jobData w)((jobId, dataType) \<mapsto> d)\<rparr>))"

subsection \<open>The handler \<^verbatim>\<open>POST\<close>\<close>

text \<open>
  \<open>request_json\<close> is \<^verbatim>\<open>await request.json()\<close>, which throws on a body that is not
  JSON; \<open>destructure_message\<close> and \<open>conversion_message\<close> are the messages of the
  \<^verbatim>\<open>TypeError\<close>s that destructuring \<^verbatim>\<open>null\<close> and a failing string conversion
  throw; \<open>update_fault\<close> and \<open>save_fault\<close> say whether the two calls to the store
  throw, and \<open>status_rule\<close> is the store's rule for a status update.
\<close>

record worker_env =
  request_json :: "json outcome"
  destructure_message :: string
  conversion_message :: string
  update_fault :: "thrown option"
  save_fault :: "thrown option"
  status_rule :: "job_status option \<Rightarrow> job_status \<Rightarrow> job_status option"
  fetch :: "json \<Rightarrow> fetch_response outcome"
  now :: string

text \<open>The \<^verbatim>\<open>data\<close> object of the successful response.\<close>

record crawl_summary =
  s_url :: json
  s_title :: string
  s_contentLength :: nat
  s_valuePropositions :: nat
  s_features :: nat
  s_benefits :: nat
  s_keywords :: nat
  s_preview :: string

text \<open>
  The four bodies: \<^verbatim>\<open>{error}\<close>, \<^verbatim>\<open>{success, message, data: {url, contentLength}}\<close>,
  \<^verbatim>\<open>{success, message, data}\<close> and \<^verbatim>\<open>{error, details}\<close>.
\<close>

datatype crawler_body =
  Required string
| NoData bool string json nat
| Crawled bool string crawl_summary
| CrawlFailed string string

record crawler_response =
  code :: nat
  body :: crawler_body

definition crawlerFailed :: "thrown \<Rightarrow> crawler_response" where
  "crawlerFailed error =
     \<lparr>code = 500, body = CrawlFailed ''Website crawl failed'' (errorMessage error ''Unknown error'')\<rparr>"

text \<open>
  \<^verbatim>\<open>typeof targetKeywords === 'string' ? targetKeywords.split(',').map(k => k.trim())
  : targetKeywords || []\<close>
\<close>

definition parseKeywords :: "json option \<Rightarrow> json" where
  "parseKeywords targetKeywords =
     (case targetKeywords of
        Some (JStr s) \<Rightarrow> JArr (map (\<lambda>k. JStr (trim k)) (split_at CHR '','' [] s))
      | Some v \<Rightarrow> if truthy v then v else JArr []
      | None \<Rightarrow> JArr [])"

text \<open>
  The part of the handler behind the check of the two required fields. It starts with
  the log line \<^verbatim>\<open>`Starting website crawl for job ${jobId}: ${websiteUrl}`\<close>, whose
  conversions come before any call to the store.
\<close>

definition runCrawl :: "worker_env \<Rightarrow> json \<Rightarrow> json \<Rightarrow> json option \<Rightarrow> world
    \<Rightarrow> crawler_response \<times> world" where
  "runCrawl e jobId websiteUrl targetKeywords w =
     (if conversion_throws jobId \<or> conversion_throws websiteUrl
      then (crawlerFailed (Error (conversion_message e)), w)
      else case updateJobStatus (update_fault e) (status_rule e) jobId Processing w of
        (Throws error, w1) \<Rightarrow> (crawlerFailed error, w1)
      | (Returns _, w1) \<Rightarrow>
          (let kws = parseKeywords targetKeywords
           in case crawlWebsiteDirectly (fetch e) (now e) websiteUrl kws of
                None \<Rightarrow>
                  (case saveJobData (save_fault e) jobId ''website''
                          (CrawlError websiteUrl ''Failed to crawl website'' (now e)) w1 of
                     (Throws error, w2) \<Rightarrow> (crawlerFailed error, w2)
                   | (Returns _, w2) \<Rightarrow>
                       (\<lparr>code = 200,
                         body = NoData True ''Website crawl completed (no data collected)''
                                  websiteUrl 0\<rparr>, w2))
              | Some wd \<Rightarrow>
                  (case saveJobData (save_fault e) jobId ''website'' (Collected wd) w1 of
                     (Throws error, w2) \<Rightarrow> (crawlerFailed error, w2)
                   | (Returns _, w2) \<Rightarrow>
                       (\<lparr>code = 200,
                         body = Crawled True ''Website crawl completed successfully''
                                  \<lparr>s_url = websiteUrl, s_title = title wd,
                                   s_contentLength = length (content wd),
                                   s_valuePropositions = length (valuePropositions wd),
                                   s_features = length (features wd),
                                   s_benefits = length (benefits wd),
                                   s_keywords = length (keywords_list wd),
                                   s_preview = take 200 (content wd) @ ''...''\<rparr>\<rparr>, w2))))"

definition required :: crawler_response where
  "required = \<lparr>code = 400, body = Required ''Job ID and website URL are required''\<rparr>"

definition crawler_POST :: "worker_env \<Rightarrow> world \<Rightarrow> crawler_response \<times> world" where
  "crawler_POST e w =
     (case request_json e of
        Throws error \<Rightarrow> (crawlerFailed error, w)
      | Returns JNull \<Rightarrow> (crawlerFailed (Error (destructure_message e)), w)
      | Returns payload \<Rightarrow>
          (case (property payload ''jobId'', property payload ''websiteUrl'') of
             (Some jobId, Some websiteUrl) \<Rightarrow>
               if \<not> truthy jobId \<or> \<not> truthy websiteUrl then (required, w)
               else runCrawl e jobId websiteUrl (property payload ''targetKeywords'') w
           | _ \<Rightarrow> (required, w)))"

subsection \<open>Notions for stating the properties\<close>

text \<open>A destructured property that fails the check \<^verbatim>\<open>!x\<close>: absent, or a falsy value.\<close>

definition falsy :: "json option \<Rightarrow> bool" where
  "falsy v = (case v of None \<Rightarrow> True | Some x \<Rightarrow> \<not> truthy x)"




section \<open>Examples that the closed theorems below evaluate\<close>

text \<open>A run of the health check where only the cache is down.\<close>

definition redis_down_env :: "nat health_env" where
  "redis_down_env =
     \<lparr>sql_select1 = Returns (), db_elapsed = 12,
      kv_ping = Throws (Error ''ECONNREFUSED''), kv_elapsed = 3,
      getQueueStats = Returns 7,
      process_env = (\<lambda>v. Some ''set''), now_iso = ''2025-01-01T00:00:00.000Z''\<rparr>"

text \<open>A maintenance call whose retry sweep throws.\<close>

definition sweep_fails_env :: maintenance_env where
  "sweep_fails_env =
     \<lparr>processRetryableJobs = Throws (Error ''queue offline''),
      triggerProcessing = Returns (), maintenance_now_iso = ''2025-01-01T00:00:00.000Z''\<rparr>"

text \<open>A page, and a network that serves it at one address and fails elsewhere.\<close>

definition shop_html :: string where
  "shop_html =
     ''<title>Shop</title><p>Our organic cotton sheet is made with the best natural material.</p>''"

definition shop_fetch :: "json \<Rightarrow> fetch_response outcome" where
  "shop_fetch u =
     (if u = JStr ''https://shop.example''
      then Returns \<lparr>response_ok = True, response_status = 200,
                    response_text = Returns shop_html\<rparr>
      else Throws (Error ''fetch failed''))"

text \<open>What the crawl of that page collects for the keywords \<^verbatim>\<open>cotton\<close> and \<^verbatim>\<open>sheets\<close>.\<close>

definition shop_data :: websiteData where
  "shop_data =
     \<lparr>url = JStr ''https://shop.example'', title = ''Shop'',
      content = ''Shop Our organic cotton sheet is made with the best natural material.'',
      valuePropositions =
        [''Shop Our organic cotton sheet is made with the best natural material''],
      features =
        [''Shop Our organic cotton sheet is made with the best natural material''],
      benefits = [],
      keywords_list = [''cotton'', ''organic'', ''cotton'', ''sheet'', ''natural''],
      metadata = \<lparr>md_timestamp = ''2025-01-01T00:00:00.000Z'', md_contentLength = 69,
                   md_extractionMethod = ''direct_fetch''\<rparr>\<rparr>"

text \<open>A store that writes a new status over the one a job has.\<close>

definition overwrite_existing :: "job_status option \<Rightarrow> job_status \<Rightarrow> job_status option" where
  "overwrite_existing held asked = (case held of None \<Rightarrow> None | Some old \<Rightarrow> Some asked)"



definition null_env :: worker_env where
  "null_env =
     \<lparr>request_json = Returns JNull,
      destructure_message = ''Cannot destructure property of null'',
      conversion_message = ''Cannot convert object to primitive value'',
      update_fault = None, save_fault = None, status_rule = overwrite_existing,
      fetch = shop_fetch,
      now = ''2025-01-01T00:00:00.000Z''\<rparr>"

text \<open>A store in which job-1 is already completed.\<close>

definition completed_world :: world where
  "completed_world =
     \<lparr>jobs = [JStr ''job-1'' \<mapsto> Completed], jobData = Map.empty, db_calls = []\<rparr>"



section \<open>The health route: theorems\<close>

lemma environmentCheck_status:
  "status (environmentCheck e) = ''healthy'' \<or> status (environmentCheck e) = ''unhealthy''"
  by (simp add: environmentCheck_def Let_def)

lemma databaseCheck_trace: "snd (databaseCheck e tr) = tr @ [SqlSelect1]"
  by (simp add: databaseCheck_def split: outcome.splits)

lemma redisCheck_trace: "snd (redisCheck e tr) = tr @ [KvPing]"
  by (simp add: redisCheck_def split: outcome.splits)

lemma queueCheck_trace: "snd (queueCheck e tr) = tr @ [GetQueueStats]"
  by (simp add: queueCheck_def split: outcome.splits)

text \<open>The handler, with its four checks named.\<close>

lemma health_GET_unfold:
  "health_GET e =
     (let db = fst (databaseCheck e []);
          kv = fst (redisCheck e [SqlSelect1]);
          qu = fst (queueCheck e [SqlSelect1, KvPing]);
          cs = \<lparr>database = db, redis = kv, queue = qu, environment = environmentCheck e\<rparr>;
          n = length (filter (\<lambda>s. s = ''healthy'') (check_statuses cs))
      in (\<lparr>statusCode = statusCodeOf (overallStatus n 4),
           document = \<lparr>timestamp = now_iso e, overall_status = overallStatus n 4, checks = cs,
                        summary = \<lparr>healthy = n, total = 4\<rparr>\<rparr>\<rparr>,
          [SqlSelect1, KvPing, GetQueueStats]))"
proof -
  obtain db t1 where d: "databaseCheck e [] = (db, t1)" by (cases "databaseCheck e []")
  have t1: "t1 = [SqlSelect1]" using databaseCheck_trace [of e "[]"] d by simp
  obtain kv t2 where k: "redisCheck e t1 = (kv, t2)" by (cases "redisCheck e t1")
  have t2: "t2 = [SqlSelect1, KvPing]" using redisCheck_trace [of e t1] k t1 by simp
  obtain qu t3 where q: "queueCheck e t2 = (qu, t3)" by (cases "queueCheck e t2")
  have t3: "t3 = [SqlSelect1, KvPing, GetQueueStats]"
    using queueCheck_trace [of e t2] q t2 by simp
  show ?thesis
    using d k q t1 t2 t3 by (simp add: health_GET_def Let_def)
qed

text \<open>
  C1. For every run of \<^verbatim>\<open>GET /health\<close>, the composite status is \<^verbatim>\<open>healthy\<close> iff all
  four checks (database, redis, queue, environment) are healthy, \<^verbatim>\<open>unhealthy\<close> iff none
  is, and \<^verbatim>\<open>degraded\<close> iff at least one but not all are; the response code is 200 for
  healthy, 207 for degraded and 503 for unhealthy.
\<close>

theorem health_status_reduction:
  fixes e :: "'q health_env"
  shows
    "(let r = fst (health_GET e); d = document r; c = checks d;
          all_healthy = (status (database c) = ''healthy'' \<and> status (redis c) = ''healthy'' \<and>
                         status (queue c) = ''healthy'' \<and> status (environment c) = ''healthy'');
          none_healthy = (status (database c) \<noteq> ''healthy'' \<and> status (redis c) \<noteq> ''healthy'' \<and>
                          status (queue c) \<noteq> ''healthy'' \<and> status (environment c) \<noteq> ''healthy'')
      in (overall_status d = ''healthy'') = all_healthy \<and>
         (overall_status d = ''unhealthy'') = none_healthy \<and>
         (overall_status d = ''degraded'') = (\<not> all_healthy \<and> \<not> none_healthy) \<and>
         (statusCode r = 200) = (overall_status d = ''healthy'') \<and>
         (statusCode r = 207) = (overall_status d = ''degraded'') \<and>
         (statusCode r = 503) = (overall_status d = ''unhealthy''))"
  by (simp add: health_GET_unfold Let_def check_statuses_def overallStatus_def statusCodeOf_def)

theorem health_status_reduction_witness:
  "overall_status (document (fst (health_GET redis_down_env))) = ''degraded'' \<and>
   statusCode (fst (health_GET redis_down_env)) = 207 \<and>
   status (redis (checks (document (fst (health_GET redis_down_env))))) \<noteq> ''healthy'' \<and>
   status (database (checks (document (fst (health_GET redis_down_env))))) = ''healthy''"
  using health_status_reduction [of redis_down_env]
  by (simp add: health_GET_unfold Let_def check_statuses_def overallStatus_def statusCodeOf_def
      redis_down_env_def databaseCheck_def redisCheck_def queueCheck_def environmentCheck_def
      requiredEnvVars_def env_falsy_def)

text \<open>
  C5. For every combination of probe outcomes of \<^verbatim>\<open>GET /health\<close>, a probe that throws
  does not abort the others: all three probes are invoked, in order; the entry of a
  throwing probe is \<^verbatim>\<open>unhealthy\<close> with the error's message behind the probe's prefix (a
  fixed text when the thrown value is no \<^verbatim>\<open>Error\<close>); the entry of a probe that returns
  is \<^verbatim>\<open>healthy\<close>; and the document has its four entries, none left \<^verbatim>\<open>unknown\<close>.
\<close>

theorem health_probes_isolated:
  fixes e :: "'q health_env"
  shows
    "(let c = checks (document (fst (health_GET e)))
      in snd (health_GET e) = [SqlSelect1, KvPing, GetQueueStats] \<and>
         database c =
           (case sql_select1 e of
              Returns _ \<Rightarrow> \<lparr>status = ''healthy'', message = ''Database connection successful'',
                            responseTime = db_elapsed e\<rparr>
            | Throws err \<Rightarrow>
                \<lparr>status = ''unhealthy'',
                 message = ''Database error: '' @ errorMessage err ''Unknown database error'',
                 responseTime = 0\<rparr>) \<and>
         redis c =
           (case kv_ping e of
              Returns _ \<Rightarrow> \<lparr>status = ''healthy'', message = ''Redis connection successful'',
                            responseTime = kv_elapsed e\<rparr>
            | Throws err \<Rightarrow>
                \<lparr>status = ''unhealthy'',
                 message = ''Redis error: '' @ errorMessage err ''Unknown Redis error'',
                 responseTime = 0\<rparr>) \<and>
         queue c =
           (case getQueueStats e of
              Returns s \<Rightarrow> \<lparr>status = ''healthy'', message = ''Queue system operational'',
                            stats = Some s\<rparr>
            | Throws err \<Rightarrow>
                \<lparr>status = ''unhealthy'',
                 message = ''Queue error: '' @ errorMessage err ''Unknown queue error'',
                 stats = None\<rparr>) \<and>
         environment c = environmentCheck e \<and>
         set (check_statuses c) \<subseteq> {''healthy'', ''unhealthy''})"
proof -
  have "status (environmentCheck e) \<in> {''healthy'', ''unhealthy''}"
    using environmentCheck_status [of e] by blast
  then show ?thesis
    by (simp add: health_GET_unfold Let_def check_statuses_def databaseCheck_def redisCheck_def
        queueCheck_def split: outcome.splits)
qed

theorem health_probes_isolated_witness:
  "snd (health_GET redis_down_env) = [SqlSelect1, KvPing, GetQueueStats] \<and>
   redis (checks (document (fst (health_GET redis_down_env)))) =
     \<lparr>status = ''unhealthy'', message = ''Redis error: ECONNREFUSED'', responseTime = 0\<rparr> \<and>
   queue (checks (document (fst (health_GET redis_down_env)))) =
     \<lparr>status = ''healthy'', message = ''Queue system operational'', stats = Some 7\<rparr>"
  using health_probes_isolated [of redis_down_env]
  by (simp add: Let_def redis_down_env_def)

text \<open>
  C7. Every \<^verbatim>\<open>POST /health\<close> call invokes the retry sweep
  (\<^verbatim>\<open>Queue.processRetryableJobs\<close>) first and, once it has returned,
  \<^verbatim>\<open>Queue.triggerProcessing\<close>. If both return, the response is 200 with
  \<^verbatim>\<open>success: true\<close> and the timestamp; if either throws, the response is 500 with the
  error's message as \<^verbatim>\<open>details\<close>.
\<close>

theorem maintenance_post:
  "(case processRetryableJobs e of
      Throws err \<Rightarrow>
        health_POST e =
          (\<lparr>maintenance_code = 500,
            maintenance_body =
              MaintenanceFailed ''System maintenance failed''
                (errorMessage err ''Unknown maintenance error'') (maintenance_now_iso e)\<rparr>,
           [ProcessRetryableJobs])
    | Returns _ \<Rightarrow>
        (case triggerProcessing e of
           Throws err \<Rightarrow>
             health_POST e =
               (\<lparr>maintenance_code = 500,
                 maintenance_body =
                   MaintenanceFailed ''System maintenance failed''
                     (errorMessage err ''Unknown maintenance error'') (maintenance_now_iso e)\<rparr>,
                [ProcessRetryableJobs, TriggerProcessing])
         | Returns _ \<Rightarrow>
             health_POST e =
               (\<lparr>maintenance_code = 200,
                 maintenance_body =
                   MaintenanceDone True ''System maintenance completed'' (maintenance_now_iso e)\<rparr>,
                [ProcessRetryableJobs, TriggerProcessing])))"
  by (simp add: health_POST_def maintenanceFailed_def split: outcome.splits)

theorem maintenance_post_witness:
  "health_POST sweep_fails_env =
     (\<lparr>maintenance_code = 500,
       maintenance_body =
         MaintenanceFailed ''System maintenance failed'' ''queue offline''
           ''2025-01-01T00:00:00.000Z''\<rparr>,
      [ProcessRetryableJobs])"
  using maintenance_post [of sweep_fails_env]
  by (simp add: sweep_fails_env_def)

section \<open>The crawler worker: lemmas on strings\<close>

lemma of_char_lower_char_fixed:
  "is_whitespace (lower_char c) = is_whitespace c"
proof -
  have "of_char c < (256 :: nat)" by simp
  then show ?thesis
    by (auto simp add: lower_char_def is_whitespace_def Let_def)
qed

lemma is_whitespace_comp_lower: "is_whitespace \<circ> lower_char = is_whitespace"
  by (rule ext) (simp add: of_char_lower_char_fixed)

lemma toLowerCase_trim: "toLowerCase (trim s) = trim (toLowerCase s)"
  by (simp add: toLowerCase_def trim_def dropWhile_map rev_map is_whitespace_comp_lower)

lemma trim_ends:
  assumes "trim s \<noteq> []"
  shows "\<not> is_whitespace (hd (trim s))" and "\<not> is_whitespace (last (trim s))"
proof -
  define d where "d = dropWhile is_whitespace s"
  define r where "r = dropWhile is_whitespace (rev d)"
  have t: "trim s = rev r" by (simp add: trim_def d_def r_def)
  with assms have r: "r \<noteq> []" by simp
  then have hr: "\<not> is_whitespace (hd r)" unfolding r_def by (rule hd_dropWhile)
  from r have "last (trim s) = hd r" by (simp add: t last_rev)
  with hr show "\<not> is_whitespace (last (trim s))" by simp
  from r obtain x where x: "x \<in> set (rev d)" "\<not> is_whitespace x"
    unfolding r_def by auto
  then have "last r = last (rev d)" unfolding r_def by (rule dropWhile_last)
  moreover from x have dn: "d \<noteq> []" by auto
  ultimately have "last r = hd d" by (simp add: last_rev)
  moreover from dn have "\<not> is_whitespace (hd d)" unfolding d_def by (rule hd_dropWhile)
  moreover from r have "hd (trim s) = last r" by (simp add: t hd_rev)
  ultimately show "\<not> is_whitespace (hd (trim s))" by simp
qed

lemma trim_unchanged:
  assumes "t \<noteq> []" "\<not> is_whitespace (hd t)" "\<not> is_whitespace (last t)"
  shows "trim t = t"
proof -
  from assms have "dropWhile is_whitespace t = t" by (cases t) auto
  moreover from assms have "dropWhile is_whitespace (rev t) = rev t"
    by (cases "rev t") (auto simp: hd_rev)
  ultimately show ?thesis by (simp add: trim_def)
qed

lemma trim_trim: "trim (trim s) = trim s"
proof (cases "trim s = []")
  case True
  have "trim [] = []" by (simp add: trim_def)
  with True show ?thesis by simp
next
  case False
  then show ?thesis using trim_ends [of s] by (intro trim_unchanged) auto
qed

lemma includes_str_sublist: "includes_str s w = sublist w s"
proof (induction s)
  case Nil
  then show ?case by simp
next
  case (Cons c cs)
  show ?case
  proof (cases w)
    case Nil
    then show ?thesis by simp
  next
    case (Cons a as)
    with Cons.IH show ?thesis by (simp add: sublist_Cons_right)
  qed
qed

lemma dropWhile_keeps_word:
  assumes "w \<noteq> []" "\<not> P (hd w)"
  shows "\<exists>ps'. dropWhile P (ps @ w @ ss) = ps' @ w @ ss"
proof (cases "\<forall>x\<in>set ps. P x")
  case True
  from assms have "dropWhile P (w @ ss) = w @ ss" by (cases w) auto
  moreover from True have "dropWhile P (ps @ w @ ss) = dropWhile P (w @ ss)"
    by (intro dropWhile_append2) simp
  ultimately have "dropWhile P (ps @ w @ ss) = [] @ w @ ss" by simp
  then show ?thesis by blast
next
  case False
  then obtain x where "x \<in> set ps" "\<not> P x" by blast
  then have "dropWhile P (ps @ w @ ss) = dropWhile P ps @ w @ ss"
    by (rule dropWhile_append1)
  then show ?thesis by blast
qed

lemma sublist_trim:
  assumes "sublist w s" "w \<noteq> []" "\<not> is_whitespace (hd w)" "\<not> is_whitespace (last w)"
  shows "sublist w (trim s)"
proof -
  from assms(1) obtain ps ss where s: "s = ps @ w @ ss" by (auto simp: sublist_def)
  from dropWhile_keeps_word [of w is_whitespace ps ss, OF assms(2,3)] obtain ps'
    where d: "dropWhile is_whitespace s = ps' @ w @ ss" unfolding s by blast
  have rw: "rev w \<noteq> []" "\<not> is_whitespace (hd (rev w))"
    using assms(2,4) by (simp_all add: hd_rev)
  from dropWhile_keeps_word [of "rev w" is_whitespace "rev ss" "rev ps'", OF rw] obtain ss'
    where "dropWhile is_whitespace (rev ss @ rev w @ rev ps') = ss' @ rev w @ rev ps'"
    by blast
  then have "trim s = ps' @ w @ rev ss'" by (simp add: trim_def d)
  then show ?thesis by (auto simp: sublist_def)
qed

text \<open>
  A word without white space at its ends that occurs in a sentence, both in lower case,
  occurs in the trimmed sentence too.
\<close>

lemma includes_trimmed:
  assumes "includes_str (toLowerCase s) (toLowerCase w)" "trim w = w"
  shows "includes_str (toLowerCase (trim s)) (toLowerCase w)"
proof (cases "w = []")
  case True
  then show ?thesis by (simp add: includes_str_sublist toLowerCase_def)
next
  case False
  have lw: "trim (toLowerCase w) = toLowerCase w"
    using assms(2) toLowerCase_trim [of w] by simp
  from False have "toLowerCase w \<noteq> []" by (simp add: toLowerCase_def)
  then have ne: "trim (toLowerCase w) \<noteq> []" by (simp add: lw)
  from trim_ends [OF ne]
  have "\<not> is_whitespace (hd (toLowerCase w))" "\<not> is_whitespace (last (toLowerCase w))"
    by (simp_all add: lw)
  with assms(1) ne show ?thesis
    by (simp add: includes_str_sublist toLowerCase_trim sublist_trim lw)
qed

lemma uniq_from_props:
  "distinct (uniq_from seen xs) \<and> set (uniq_from seen xs) = set xs - set seen"
  by (induction xs arbitrary: seen) auto

lemma distinct_set_values: "distinct (set_values xs)"
  by (simp add: set_values_def uniq_from_props)

lemma set_set_values: "set (set_values xs) = set xs"
  by (simp add: set_values_def uniq_from_props)

lemma in_extractSentencesWithWords:
  assumes "t \<in> set (extractSentencesWithWords txt targetWords)"
  shows "\<exists>sentence. t = trim sentence \<and> hasTargetWord targetWords sentence \<and>
           30 < length (trim sentence) \<and> length (trim sentence) < 200"
  using assms by (auto simp: extractSentencesWithWords_def Let_def set_set_values)

section \<open>The crawler worker: the handler, case by case\<close>

text \<open>A request with both required fields goes on to the crawl.\<close>

lemma crawler_POST_valid:
  assumes "request_json e = Returns payload"
    and "property payload ''jobId'' = Some jobId" and "truthy jobId"
    and "property payload ''websiteUrl'' = Some websiteUrl" and "truthy websiteUrl"
  shows "crawler_POST e w =
           runCrawl e jobId websiteUrl (property payload ''targetKeywords'') w"
  using assms by (cases payload) (simp_all add: crawler_POST_def)

text \<open>Any other request is answered at once, and the state is handed back as it came.\<close>

lemma crawler_POST_rejected:
  assumes "request_json e = Returns payload"
    and "falsy (property payload ''jobId'') \<or> falsy (property payload ''websiteUrl'')"
  shows "crawler_POST e w =
           (if payload = JNull then crawlerFailed (Error (destructure_message e)) else required, w)"
  using assms
  by (cases payload) (auto simp add: crawler_POST_def falsy_def split: option.splits)

lemma crawler_POST_unparsed:
  assumes "request_json e = Throws err"
  shows "crawler_POST e w = (crawlerFailed err, w)"
  using assms by (simp add: crawler_POST_def)

lemma crawler_POST_cases:
  obtains (unchanged) r where "crawler_POST e w = (r, w)"
  | (crawl) payload jobId websiteUrl where
      "request_json e = Returns payload"
      "property payload ''jobId'' = Some jobId" "truthy jobId"
      "property payload ''websiteUrl'' = Some websiteUrl" "truthy websiteUrl"
      "crawler_POST e w = runCrawl e jobId websiteUrl (property payload ''targetKeywords'') w"
proof (cases "request_json e")
  case (Throws err)
  then show ?thesis using unchanged crawler_POST_unparsed by blast
next
  case (Returns payload)
  show ?thesis
  proof (cases "falsy (property payload ''jobId'') \<or> falsy (property payload ''websiteUrl'')")
    case True
    with Returns show ?thesis using unchanged crawler_POST_rejected by blast
  next
    case False
    then obtain jobId websiteUrl where
      "property payload ''jobId'' = Some jobId" "truthy jobId"
      "property payload ''websiteUrl'' = Some websiteUrl" "truthy websiteUrl"
      by (auto simp: falsy_def split: option.splits)
    with Returns show ?thesis using crawl crawler_POST_valid by blast
  qed
qed






lemma crawl_Some_fields:
  assumes "crawlWebsiteDirectly net t websiteUrl kws = Some wd"
  shows "\<exists>r html ks. net websiteUrl = Returns r \<and> response_ok r \<and>
           response_text r = Returns html \<and> string_array kws = Some ks \<and>
           wd = \<lparr>url = websiteUrl, title = extractTitle html,
                 content = take 5000 (extractTextFromHTML html),
                 valuePropositions =
                   a_valuePropositions (analyzeWebsiteContent (extractTextFromHTML html) ks),
                 features = a_features (analyzeWebsiteContent (extractTextFromHTML html) ks),
                 benefits = a_benefits (analyzeWebsiteContent (extractTextFromHTML html) ks),
                 keywords_list = a_keywords (analyzeWebsiteContent (extractTextFromHTML html) ks),
                 metadata = \<lparr>md_timestamp = t,
                              md_contentLength = length (extractTextFromHTML html),
                              md_extractionMethod = ''direct_fetch''\<rparr>\<rparr>"
  using assms
  by (auto simp add: crawlWebsiteDirectly_def Let_def split: outcome.splits if_splits option.splits)


lemma shop_crawl:
  "crawlWebsiteDirectly shop_fetch ''2025-01-01T00:00:00.000Z'' (JStr ''https://shop.example'')
     (JArr [JStr ''cotton'', JStr ''sheets'']) = Some shop_data"
  by code_simp

section \<open>The crawler worker: theorems\<close>







text \<open>
  C6. A request whose body lacks a truthy \<^verbatim>\<open>jobId\<close> or \<^verbatim>\<open>websiteUrl\<close> makes no call
  to the store and leaves the state as it was. The response is 400 with the error
  message, except for the body \<^verbatim>\<open>null\<close>: there the destructuring throws and the
  response is 500.
\<close>

theorem missing_field_response:
  assumes "request_json e = Returns payload"
    and "falsy (property payload ''jobId'') \<or> falsy (property payload ''websiteUrl'')"
  shows "snd (crawler_POST e w) = w \<and>
         fst (crawler_POST e w) =
           (if payload = JNull
            then \<lparr>code = 500,
                  body = CrawlFailed ''Website crawl failed'' (destructure_message e)\<rparr>
            else \<lparr>code = 400, body = Required ''Job ID and website URL are required''\<rparr>)"
  using crawler_POST_rejected [OF assms, of w]
  by (simp add: crawlerFailed_def required_def)

theorem missing_field_response_witness:
  "falsy (property JNull ''jobId'') \<and>
   snd (crawler_POST null_env completed_world) = completed_world \<and>
   fst (crawler_POST null_env completed_world) =
     \<lparr>code = 500,
      body = CrawlFailed ''Website crawl failed'' ''Cannot destructure property of null''\<rparr>"
proof -
  have r: "request_json null_env = Returns JNull" by (simp add: null_env_def)
  have f: "falsy (property JNull ''jobId'') \<or> falsy (property JNull ''websiteUrl'')"
    by (simp add: falsy_def)
  have "falsy (property JNull ''jobId'')" by (simp add: falsy_def)
  with missing_field_response [OF r f, of completed_world] show ?thesis
    by (simp add: null_env_def)
qed

text \<open>
  C9. A non-null \<^verbatim>\<open>WebsiteData\<close> has at most 5000 characters of content, at most 8
  value propositions, 10 features, 10 benefits and 15 keywords.
\<close>

theorem website_data_bounds:
  assumes "crawlWebsiteDirectly net t websiteUrl kws = Some wd"
  shows "length (content wd) \<le> 5000 \<and> length (valuePropositions wd) \<le> 8 \<and>
         length (features wd) \<le> 10 \<and> length (benefits wd) \<le> 10 \<and>
         length (keywords_list wd) \<le> 15"
proof -
  from crawl_Some_fields [OF assms] obtain html ks where
    "wd = \<lparr>url = websiteUrl, title = extractTitle html,
           content = take 5000 (extractTextFromHTML html),
           valuePropositions =
             a_valuePropositions (analyzeWebsiteContent (extractTextFromHTML html) ks),
           features = a_features (analyzeWebsiteContent (extractTextFromHTML html) ks),
           benefits = a_benefits (analyzeWebsiteContent (extractTextFromHTML html) ks),
           keywords_list = a_keywords (analyzeWebsiteContent (extractTextFromHTML html) ks),
           metadata = \<lparr>md_timestamp = t,
                        md_contentLength = length (extractTextFromHTML html),
                        md_extractionMethod = ''direct_fetch''\<rparr>\<rparr>"
    by blast
  then show ?thesis by (simp add: analyzeWebsiteContent_def Let_def)
qed

theorem website_data_bounds_witness:
  "crawlWebsiteDirectly shop_fetch ''2025-01-01T00:00:00.000Z'' (JStr ''https://shop.example'')
     (JArr [JStr ''cotton'', JStr ''sheets'']) = Some shop_data \<and>
   length (content shop_data) \<le> 5000 \<and> length (valuePropositions shop_data) \<le> 8 \<and>
   length (features shop_data) \<le> 10 \<and> length (benefits shop_data) \<le> 10 \<and>
   length (keywords_list shop_data) \<le> 15"
  using website_data_bounds [OF shop_crawl] shop_crawl by simp

text \<open>
  C10, as the claim states it, fails for a target word that begins with white space:
  the word is found in the untrimmed sentence, and the sentence returned is the trimmed
  one.
\<close>

theorem trimmed_sentence_lacks_word:
  "extractSentencesWithWords '' best of all possible worlds and all that'' ['' best''] =
     [''best of all possible worlds and all that''] \<and>
   \<not> includes_str (toLowerCase ''best of all possible worlds and all that'')
       (toLowerCase '' best'')"
  by code_simp

text \<open>
  C10, amended. For every content string and every list of target words, every sentence
  returned is the trimmed form of a sentence that contains one of the target words, both
  in lower case; it has a trimmed length above 30 and below 200; and no sentence is
  returned twice. The returned sentence contains one of the target words itself (both in
  lower case) when no target word begins or ends with white space, as is the case for
  the three lists the analysis uses.
\<close>

theorem matching_sentences:
  assumes "t \<in> set (extractSentencesWithWords txt targetWords)"
  shows "(\<exists>sentence. t = trim sentence \<and> hasTargetWord targetWords sentence) \<and>
         ((\<forall>w \<in> set targetWords. trim w = w) \<longrightarrow> hasTargetWord targetWords t) \<and>
         30 < length (trim t) \<and> length (trim t) < 200 \<and>
         distinct (extractSentencesWithWords txt targetWords) \<and>
         list_all (\<lambda>w. trim w = w) valueWords \<and> list_all (\<lambda>w. trim w = w) featureWords \<and>
         list_all (\<lambda>w. trim w = w) benefitWords"
proof -
  from in_extractSentencesWithWords [OF assms] obtain sentence where s:
    "t = trim sentence" "hasTargetWord targetWords sentence"
    "30 < length (trim sentence)" "length (trim sentence) < 200"
    by blast
  have "hasTargetWord targetWords t" if "\<forall>w \<in> set targetWords. trim w = w"
    using s(2) that
    by (auto simp add: hasTargetWord_def list_ex_iff s(1) intro: includes_trimmed)
  moreover have "distinct (extractSentencesWithWords txt targetWords)"
    by (simp add: extractSentencesWithWords_def Let_def distinct_set_values)
  moreover have "list_all (\<lambda>w. trim w = w) valueWords"
    "list_all (\<lambda>w. trim w = w) featureWords" "list_all (\<lambda>w. trim w = w) benefitWords"
    by code_simp+
  ultimately show ?thesis using s by (auto simp: trim_trim)
qed

theorem matching_sentences_witness:
  "hasTargetWord [''best''] ''Shop Our organic cotton sheet is made with the best natural material'' \<and>
   30 < length (trim ''Shop Our organic cotton sheet is made with the best natural material'') \<and>
   distinct (extractSentencesWithWords
     ''Shop Our organic cotton sheet is made with the best natural material.'' [''best''])"
proof -
  have m: "''Shop Our organic cotton sheet is made with the best natural material'' \<in>
      set (extractSentencesWithWords
        ''Shop Our organic cotton sheet is made with the best natural material.'' [''best''])"
    by code_simp
  have "\<forall>w \<in> set [''best'']. trim w = w" by code_simp
  with matching_sentences [OF m] show ?thesis by blast
qed

end
